theory Spec2Isabelle
  imports Main
begin

section \<open>Data model of sky.py\<close>

text \<open>
  The bot keeps one module-level dictionary, \<^verbatim>\<open>games_db\<close>, from a Telegram user id to a
  dictionary with the two keys \<^verbatim>\<open>"number"\<close> and \<^verbatim>\<open>"attempts"\<close>. The number is
  \<^verbatim>\<open>None\<close> right after the entry is made (line 132) and an integer afterwards; both
  integers are Python's unbounded ones.
\<close>

record session =
  number :: "int option"
  attempts :: int

type_synonym games = "int \<Rightarrow> session option"

text \<open>
  An update as the handlers read it: \<^verbatim>\<open>update.effective_user.id\<close>,
  \<^verbatim>\<open>update.message.text\<close> and the method \<^verbatim>\<open>update.message.reply_text\<close>. The text
  is a list of code points below 256; a text with other code points is outside the
  model. The results below read the text only through the outcome of \<^verbatim>\<open>int\<close> and
  through its first character.

  Sending can fail (the network, a time-out, a user who blocked the bot), and then
  \<^verbatim>\<open>reply_text\<close> raises. \<open>reply_ok upd k\<close> tells whether call number \<open>k\<close> of
  \<^verbatim>\<open>reply_text\<close> in the handling of \<open>upd\<close>, counted from 0, returns. It is read by
  \<^verbatim>\<open>guess_number_game\<close>, the one handler that sends inside a \<^verbatim>\<open>try\<close>. In the other
  handlers a send that raises is caught nowhere and ends the handling; they are
  modelled for sends that return.
\<close>

record tg_update =
  user_id :: int
  msg_text :: string
  reply_ok :: "nat \<Rightarrow> bool"

text \<open>
  What a handler sends. Each constructor stands for one string of the source:
  \<^item> \<open>RangePrompt\<close>: "I've chosen a number between 1-100. Guess it!" (line 138)
  \<^item> \<open>TooLow\<close>: "Too low! Try higher." (line 147)
  \<^item> \<open>TooHigh\<close>: "Too high! Try lower." (line 149)
  \<^item> \<open>Correct n\<close>: "Correct! You got it in n attempts!" (line 152)
  \<^item> \<open>PleaseSendNumber\<close>: "Please send a number!" (line 155)
  \<^item> \<open>StartMenu\<close>: the greeting with the inline keyboard (lines 171 to 175)
  \<^item> \<open>HelpText\<close>: the command list (lines 179 to 211)
  \<^item> \<open>ChatgptUsage\<close>, \<open>YoutubeUsage\<close>, \<open>WhatsappUsage\<close>, \<open>WeatherUsage\<close>,
    \<open>BroadcastUsage\<close>: the "Usage: ..." lines (216, 227, 244, 255, 270)
  \<^item> \<open>Thinking\<close>: "Thinking..." (lines 220, 309)
  \<^item> \<open>Downloading\<close>: "Downloading video..." (line 231)
  \<^item> \<open>Video p\<close>: the file at path \<open>p\<close>, sent with \<^verbatim>\<open>reply_video\<close> (line 236)
  \<^item> \<open>AdminOnly\<close>: "Admin only command!" (line 266)
  \<^item> \<open>BroadcastSent m\<close>: "Broadcast sent: m" (line 275)
  \<^item> \<open>Plain s\<close>: the string \<open>s\<close> itself, as an adapter returned it
\<close>

datatype reply =
    RangePrompt
  | TooLow
  | TooHigh
  | Correct int
  | PleaseSendNumber
  | StartMenu
  | HelpText
  | ChatgptUsage
  | YoutubeUsage
  | WhatsappUsage
  | WeatherUsage
  | BroadcastUsage
  | Thinking
  | Downloading
  | Video string
  | AdminOnly
  | BroadcastSent string
  | Plain string

datatype adapter = Gemini | ChatGPT | YouTube | WhatsApp | Weather

text \<open>
  The observable trace of a handler, in program order: the replies it sends with
  \<^verbatim>\<open>reply_text\<close>, the replies whose \<^verbatim>\<open>reply_text\<close> raised (\<open>Unsent\<close>), the calls
  it makes to the adapter functions of lines 43 to 122 (with the argument string), the
  answer and the edit of a button press (with the tag whose text is shown), and
  \<open>Raised\<close> where the handler ends with an uncaught exception.
\<close>

datatype action =
    Reply reply
  | Unsent reply
  | Call adapter string
  | AnswerQuery
  | EditMessage string
  | Raised

text \<open>
  The configuration and the outside world. \<^verbatim>\<open>GEMINI_API_KEY\<close> is what
  \<^verbatim>\<open>os.getenv\<close> gave (None when unset), \<^verbatim>\<open>ADMIN_IDS\<close> the list of line 35. The five
  functions are the results of the external services for a given request; the source's
  wrappers turn every failure of a service into a string, so each always returns.
\<close>

record env =
  GEMINI_API_KEY :: "string option"
  ADMIN_IDS :: "int list"
  gemini_chat :: "string \<Rightarrow> string"
  chat_gpt :: "string \<Rightarrow> string"
  download_youtube :: "string \<Rightarrow> string option \<times> string"
  send_whatsapp :: "string \<Rightarrow> string \<Rightarrow> string"
  get_weather :: "string \<Rightarrow> string"

section \<open>Python's int() on a string\<close>

text \<open>
  \<^verbatim>\<open>int(s)\<close> in base 10: white space is stripped at both ends, one sign may follow,
  then decimal digits where a single underscore may stand between two digits. Anything
  else raises ValueError, which is \<open>None\<close> here. Of the code points below 256 the white
  space is 9 to 13, 32, 133 and 160, and the only decimal digits are the ASCII ones.
\<close>

definition py_isspace :: "char \<Rightarrow> bool" where
  "py_isspace c = ((of_char c :: nat) \<in> {9, 10, 11, 12, 13, 32, 133, 160})"

definition py_isdigit :: "char \<Rightarrow> bool" where
  "py_isdigit c = (48 \<le> (of_char c :: nat) \<and> (of_char c :: nat) \<le> 57)"

definition digit_val :: "char \<Rightarrow> int" where
  "digit_val c = int (of_char c) - 48"

definition py_strip :: "string \<Rightarrow> string" where
  "py_strip s = rev (dropWhile py_isspace (rev (dropWhile py_isspace s)))"

fun parse_digits :: "int \<Rightarrow> string \<Rightarrow> int option" where
  "parse_digits acc [] = Some acc"
| "parse_digits acc [c] =
     (if py_isdigit c then Some (acc * 10 + digit_val c) else None)"
| "parse_digits acc (c # d # ds) =
     (if py_isdigit c then parse_digits (acc * 10 + digit_val c) (d # ds)
      else if c = CHR ''_'' \<and> py_isdigit d then parse_digits (acc * 10 + digit_val d) ds
      else None)"

definition parse_unsigned :: "string \<Rightarrow> int option" where
  "parse_unsigned s =
     (case s of
        [] \<Rightarrow> None
      | c # cs \<Rightarrow> if py_isdigit c then parse_digits (digit_val c) cs else None)"

definition py_int :: "string \<Rightarrow> int option" where
  "py_int s =
     (case py_strip s of
        [] \<Rightarrow> None
      | c # cs \<Rightarrow>
          if c = CHR ''-'' then map_option uminus (parse_unsigned cs)
          else if c = CHR ''+'' then parse_unsigned cs
          else parse_unsigned (c # cs))"

section \<open>The number guessing game\<close>

text \<open>Python's truth value of \<^verbatim>\<open>games_db[user_id]["number"]\<close>: None and 0 are false.\<close>

definition truthy :: "int option \<Rightarrow> bool" where
  "truthy v = (case v of None \<Rightarrow> False | Some n \<Rightarrow> n \<noteq> 0)"

text \<open>
  \<^verbatim>\<open>random.randint(a, b)\<close> with \<open>a \<le> b\<close> returns an integer \<open>N\<close> with
  \<open>a \<le> N \<le> b\<close>. The third argument is the raw draw of the generator: every value of
  the range is the image of some draw, and no draw leaves the range. The source calls it
  with 1 and 100 only.
\<close>

definition randint :: "int \<Rightarrow> int \<Rightarrow> nat \<Rightarrow> int" where
  "randint a b draw = a + int draw mod (b - a + 1)"

text \<open>
  Call number \<open>k\<close> of \<^verbatim>\<open>reply_text\<close> made outside the \<^verbatim>\<open>try\<close> (lines 138 and
  155): when it raises, nothing catches the exception and the handler ends with it.
\<close>

definition reply_uncaught :: "(nat \<Rightarrow> bool) \<Rightarrow> nat \<Rightarrow> reply \<Rightarrow> action list" where
  "reply_uncaught ok k r = (if ok k then [Reply r] else [Unsent r, Raised])"

text \<open>
  The first call of \<^verbatim>\<open>reply_text\<close>, made inside the \<^verbatim>\<open>try\<close> (lines 147 and 149):
  when it raises, the bare \<^verbatim>\<open>except\<close> of line 154 catches the exception and line 155
  sends "Please send a number!" as the second call.
\<close>

definition reply_caught :: "(nat \<Rightarrow> bool) \<Rightarrow> reply \<Rightarrow> action list" where
  "reply_caught ok r =
     (if ok 0 then [Reply r] else Unsent r # reply_uncaught ok 1 PleaseSendNumber)"

text \<open>
  \<^verbatim>\<open>guess_number_game\<close>, lines 127 to 155. The argument \<open>draw\<close> is the generator's draw
  for this invocation, read only if line 136 runs. The result is the dictionary after the
  call and the trace.

  Lines 132 to 137 write the entry before line 138 sends the prompt, and line 143
  counts the attempt before any reply. On the winning guess line 152 sends the success
  message and only then line 153 deletes the entry, both inside the \<^verbatim>\<open>try\<close>: when the
  send raises, line 153 is skipped, the \<^verbatim>\<open>except\<close> answers, and the entry stays with
  its counter incremented. A comparison of the guess with None (line 146) would raise
  inside the \<^verbatim>\<open>try\<close> as well.
\<close>

definition guess_number_game :: "nat \<Rightarrow> tg_update \<Rightarrow> games \<Rightarrow> games \<times> action list" where
  "guess_number_game draw upd db =
     (let uid = user_id upd;
          ok = reply_ok upd;
          (db1, s) = (case db uid of
                        None \<Rightarrow> (db(uid \<mapsto> \<lparr>number = None, attempts = 0\<rparr>),
                                 \<lparr>number = None, attempts = 0\<rparr>)
                      | Some s0 \<Rightarrow> (db, s0))
      in if \<not> truthy (number s) then
           (db1(uid \<mapsto> \<lparr>number = Some (randint 1 100 draw), attempts = 0\<rparr>),
            reply_uncaught ok 0 RangePrompt)
         else
           (case py_int (msg_text upd) of
              None \<Rightarrow> (db1, reply_uncaught ok 0 PleaseSendNumber)
            | Some guess \<Rightarrow>
                (let s1 = s\<lparr>attempts := attempts s + 1\<rparr>;
                     db2 = db1(uid \<mapsto> s1)
                 in case number s1 of
                      None \<Rightarrow> (db2, reply_uncaught ok 0 PleaseSendNumber)
                    | Some target \<Rightarrow>
                        if guess < target then (db2, reply_caught ok TooLow)
                        else if guess > target then (db2, reply_caught ok TooHigh)
                        else if ok 0
                        then (db2(uid := None), [Reply (Correct (attempts s1))])
                        else (db2, Unsent (Correct (attempts s1))
                                     # reply_uncaught ok 1 PleaseSendNumber))))"

section \<open>Command handlers\<close>

text \<open>\<^verbatim>\<open>' '.join(args)\<close>\<close>

fun join_space :: "string list \<Rightarrow> string" where
  "join_space [] = []"
| "join_space [x] = x"
| "join_space (x # y # ys) = x @ '' '' @ join_space (y # ys)"

text \<open>Python's truth value of an optional string: None and the empty string are false.\<close>

definition str_truthy :: "string option \<Rightarrow> bool" where
  "str_truthy v = (case v of None \<Rightarrow> False | Some s \<Rightarrow> s \<noteq> [])"

text \<open>\<^verbatim>\<open>text.startswith('/')\<close>\<close>

definition startswith_slash :: "string \<Rightarrow> bool" where
  "startswith_slash s = (case s of [] \<Rightarrow> False | c # _ \<Rightarrow> c = CHR ''/'')"

text \<open>Lines 158 to 175 and 177 to 211.\<close>

definition start :: "games \<Rightarrow> games \<times> action list" where
  "start db = (db, [Reply StartMenu])"

definition help_command :: "games \<Rightarrow> games \<times> action list" where
  "help_command db = (db, [Reply HelpText])"

text \<open>Lines 213 to 222; the handler of both /chatgpt and /gemini.\<close>

definition chatgpt_command :: "env \<Rightarrow> string list \<Rightarrow> games \<Rightarrow> games \<times> action list" where
  "chatgpt_command e args db =
     (if args = [] then (db, [Reply ChatgptUsage])
      else (let prompt = join_space args;
                response = chat_gpt e prompt
            in (db, [Reply Thinking, Call ChatGPT prompt, Reply (Plain (take 4000 response))])))"

text \<open>
  Lines 224 to 239; the handler of both /youtube and /ytaudio. Opening the file that
  the download reported may raise; the model takes the file to be there.
\<close>

definition youtube_command :: "env \<Rightarrow> string list \<Rightarrow> games \<Rightarrow> games \<times> action list" where
  "youtube_command e args db =
     (case args of
        [] \<Rightarrow> (db, [Reply YoutubeUsage])
      | url # _ \<Rightarrow>
          (let (filepath, result) = download_youtube e url
           in case filepath of
                None \<Rightarrow> (db, [Reply Downloading, Call YouTube url, Reply (Plain result)])
              | Some p \<Rightarrow>
                  if p \<noteq> [] then (db, [Reply Downloading, Call YouTube url, Reply (Video p)])
                  else (db, [Reply Downloading, Call YouTube url, Reply (Plain result)])))"

text \<open>Lines 241 to 250.\<close>

definition whatsapp_command :: "env \<Rightarrow> string list \<Rightarrow> games \<Rightarrow> games \<times> action list" where
  "whatsapp_command e args db =
     (case args of
        num # m # ms \<Rightarrow>
          (db, [Call WhatsApp num, Reply (Plain (send_whatsapp e num (join_space (m # ms))))])
      | _ \<Rightarrow> (db, [Reply WhatsappUsage]))"

text \<open>Lines 252 to 260.\<close>

definition weather_command :: "env \<Rightarrow> string list \<Rightarrow> games \<Rightarrow> games \<times> action list" where
  "weather_command e args db =
     (if args = [] then (db, [Reply WeatherUsage])
      else (let city = join_space args
            in (db, [Call Weather city, Reply (Plain (get_weather e city))])))"

text \<open>Lines 262 to 275.\<close>

definition broadcast_command ::
  "env \<Rightarrow> tg_update \<Rightarrow> string list \<Rightarrow> games \<Rightarrow> games \<times> action list" where
  "broadcast_command e upd args db =
     (if user_id upd \<notin> set (ADMIN_IDS e) then (db, [Reply AdminOnly])
      else if args = [] then (db, [Reply BroadcastUsage])
      else (db, [Reply (BroadcastSent (join_space args))]))"

text \<open>
  Lines 277 to 293. On the tag \<^verbatim>\<open>help\<close> the handler calls \<^verbatim>\<open>help_command\<close>, which
  reads \<^verbatim>\<open>update.message\<close>; the update of a button press carries no message, so the
  call raises. A tag outside the six is answered and nothing else.
\<close>

definition button_handler :: "string \<Rightarrow> games \<Rightarrow> games \<times> action list" where
  "button_handler data db =
     (if data \<in> {''ai_chat'', ''youtube'', ''weather'', ''whatsapp'', ''games''}
      then (db, [AnswerQuery, EditMessage data])
      else if data = ''help'' then (db, [AnswerQuery, Raised])
      else (db, [AnswerQuery]))"

text \<open>
  The guard of line 300,
  \<^verbatim>\<open>user_id in games_db and games_db[user_id]["number"]\<close>, as a truth value.
\<close>

definition playing :: "games \<Rightarrow> int \<Rightarrow> bool" where
  "playing db uid = (case db uid of None \<Rightarrow> False | Some s \<Rightarrow> truthy (number s))"

text \<open>Lines 295 to 311.\<close>

definition handle_message :: "env \<Rightarrow> nat \<Rightarrow> tg_update \<Rightarrow> games \<Rightarrow> games \<times> action list" where
  "handle_message e draw upd db =
     (if playing db (user_id upd)
      then guess_number_game draw upd db
      else (let text = msg_text upd
            in if startswith_slash text then (db, [])
               else if str_truthy (GEMINI_API_KEY e)
               then (db, [Reply Thinking, Call Gemini text,
                          Reply (Plain (take 4000 (gemini_chat e text)))])
               else (db, [Reply Thinking, Call ChatGPT text,
                          Reply (Plain (take 4000 (chat_gpt e text)))])))"

section \<open>The dispatcher\<close>

text \<open>
  The three kinds of update that \<^verbatim>\<open>main\<close> registers a handler for (lines 330 to 345):
  a command with its name and \<^verbatim>\<open>context.args\<close>, a button press with
  \<^verbatim>\<open>query.data\<close>, and a text message that is not a command. A command without a
  handler is dropped.
\<close>

datatype event =
    Command string "string list"
  | CallbackQuery string
  | TextMessage

definition dispatch :: "env \<Rightarrow> nat \<Rightarrow> event \<Rightarrow> tg_update \<Rightarrow> games \<Rightarrow> games \<times> action list" where
  "dispatch e draw ev upd db =
     (case ev of
        Command name args \<Rightarrow>
          if name = ''start'' then start db
          else if name = ''help'' then help_command db
          else if name = ''chatgpt'' \<or> name = ''gemini'' then chatgpt_command e args db
          else if name = ''youtube'' \<or> name = ''ytaudio'' then youtube_command e args db
          else if name = ''whatsapp'' then whatsapp_command e args db
          else if name = ''weather'' then weather_command e args db
          else if name = ''game'' then guess_number_game draw upd db
          else if name = ''broadcast'' then broadcast_command e upd args db
          else (db, [])
      | CallbackQuery data \<Rightarrow> button_handler data db
      | TextMessage \<Rightarrow> handle_message e draw upd db)"

text \<open>A stream of updates, each with the generator's draw for it, handled one by one.\<close>

fun run :: "env \<Rightarrow> (nat \<times> event \<times> tg_update) list \<Rightarrow> games \<Rightarrow> games" where
  "run e [] db = db"
| "run e ((draw, ev, upd) # rest) db = run e rest (fst (dispatch e draw ev upd db))"

text \<open>
  One user's messages to the game, each with the generator's draw for it and with the
  outcomes of its sends: the final dictionary and the whole trace.
\<close>

fun guess_all ::
  "int \<Rightarrow> (nat \<times> string \<times> (nat \<Rightarrow> bool)) list \<Rightarrow> games \<Rightarrow> games \<times> action list" where
  "guess_all uid [] db = (db, [])"
| "guess_all uid ((draw, t, ok) # rest) db =
     (let (db1, out1) =
            guess_number_game draw \<lparr>user_id = uid, msg_text = t, reply_ok = ok\<rparr> db;
          (db2, out2) = guess_all uid rest db1
      in (db2, out1 @ out2))"

text \<open>The calls to an AI chat function in a trace.\<close>

fun is_ai_call :: "action \<Rightarrow> bool" where
  "is_ai_call (Call Gemini _) = True"
| "is_ai_call (Call ChatGPT _) = True"
| "is_ai_call _ = False"

text \<open>
  The state of the dictionary that the handlers keep: every entry has a number from 1
  to 100 and a counter that is not negative.
\<close>

definition session_ok :: "session \<Rightarrow> bool" where
  "session_ok s =
     (case number s of None \<Rightarrow> False | Some n \<Rightarrow> 1 \<le> n \<and> n \<le> 100 \<and> 0 \<le> attempts s)"

definition store_ok :: "games \<Rightarrow> bool" where
  "store_ok db = (\<forall>uid s. db uid = Some s \<longrightarrow> session_ok s)"

text \<open>Outcomes of the sends of one handling: the first raises, every later one returns.\<close>

definition first_send_raises :: "nat \<Rightarrow> bool" where
  "first_send_raises k = (k \<noteq> 0)"

text \<open>A configuration to run the handlers on: no Gemini key, one administrator.\<close>

definition example_env :: env where
  "example_env =
     \<lparr>GEMINI_API_KEY = None, ADMIN_IDS = [1000],
      gemini_chat = (\<lambda>prompt. ''gemini: '' @ prompt),
      chat_gpt = (\<lambda>prompt. ''gpt: '' @ prompt),
      download_youtube = (\<lambda>url. (None, ''YouTube Error'')),
      send_whatsapp = (\<lambda>num m. ''WhatsApp not configured. Add TWILIO credentials.''),
      get_weather = (\<lambda>city. ''City not found: '' @ city)\<rparr>"

section \<open>Facts about the game handler\<close>

lemma randint_range: "1 \<le> randint 1 100 d \<and> randint 1 100 d \<le> 100"
  by (simp add: randint_def)

text \<open>Every number of the announced range can be drawn.\<close>

lemma randint_onto: "1 \<le> n \<Longrightarrow> n \<le> 100 \<Longrightarrow> \<exists>d. randint 1 100 d = n"
  by (rule exI [of _ "nat (n - 1)"]) (simp add: randint_def)

lemma game_fresh:
  "db (user_id upd) = None \<Longrightarrow>
   guess_number_game d upd db =
     (db(user_id upd \<mapsto> \<lparr>number = Some (randint 1 100 d), attempts = 0\<rparr>),
      reply_uncaught (reply_ok upd) 0 RangePrompt)"
  by (simp add: guess_number_game_def truthy_def)

lemma game_not_number:
  "db (user_id upd) = Some s \<Longrightarrow> truthy (number s) \<Longrightarrow> py_int (msg_text upd) = None \<Longrightarrow>
   guess_number_game d upd db = (db, reply_uncaught (reply_ok upd) 0 PleaseSendNumber)"
  by (simp add: guess_number_game_def)

lemma game_number:
  "db (user_id upd) = Some s \<Longrightarrow> number s = Some target \<Longrightarrow> target \<noteq> 0 \<Longrightarrow>
   py_int (msg_text upd) = Some guess \<Longrightarrow>
   guess_number_game d upd db =
     (if guess < target
      then (db(user_id upd \<mapsto> s\<lparr>attempts := attempts s + 1\<rparr>),
            reply_caught (reply_ok upd) TooLow)
      else if guess > target
      then (db(user_id upd \<mapsto> s\<lparr>attempts := attempts s + 1\<rparr>),
            reply_caught (reply_ok upd) TooHigh)
      else if reply_ok upd 0
      then (db(user_id upd := None), [Reply (Correct (attempts s + 1))])
      else (db(user_id upd \<mapsto> s\<lparr>attempts := attempts s + 1\<rparr>),
            Unsent (Correct (attempts s + 1))
              # reply_uncaught (reply_ok upd) 1 PleaseSendNumber))"
  by (simp add: guess_number_game_def truthy_def Let_def)

text \<open>A guess that is not the number keeps the session, whatever becomes of the sends.\<close>

lemma game_miss:
  assumes "db (user_id upd) = Some s" "number s = Some target" "target \<noteq> 0"
    and "py_int (msg_text upd) = Some guess" "guess \<noteq> target"
  shows "fst (guess_number_game d upd db) =
           db(user_id upd \<mapsto> s\<lparr>attempts := attempts s + 1\<rparr>)"
  using assms by (simp add: game_number)

lemma py_strip_keeps_head:
  "\<not> py_isspace c \<Longrightarrow> py_strip (c # cs) = c # rev (dropWhile py_isspace (rev cs))"
  by (simp add: py_strip_def dropWhile_append3)

lemma py_int_slash: "py_int (CHR ''/'' # rest) = None"
proof -
  have "\<not> py_isspace CHR ''/''" by (simp add: py_isspace_def)
  then have "py_strip (CHR ''/'' # rest) = CHR ''/'' # rev (dropWhile py_isspace (rev rest))"
    by (rule py_strip_keeps_head)
  then show ?thesis
    by (simp add: py_int_def parse_unsigned_def py_isdigit_def)
qed

lemma game_no_ai_call: "filter is_ai_call (snd (guess_number_game d upd db)) = []"
  by (simp add: guess_number_game_def reply_caught_def reply_uncaught_def Let_def
      split: option.splits prod.splits)

lemma game_store_ok:
  assumes "store_ok db"
  shows "store_ok (fst (guess_number_game d upd db))"
proof (cases "db (user_id upd)")
  case None
  with assms randint_range [of d] show ?thesis
    by (simp add: game_fresh store_ok_def session_ok_def)
next
  case (Some s)
  with assms have ok: "session_ok s" by (simp add: store_ok_def)
  then obtain n where n: "number s = Some n" "1 \<le> n" "n \<le> 100" "0 \<le> attempts s"
    by (auto simp: session_ok_def split: option.splits)
  then have t: "truthy (number s)" "n \<noteq> 0" by (simp_all add: truthy_def)
  show ?thesis
  proof (cases "py_int (msg_text upd)")
    case None
    with Some t assms show ?thesis by (simp add: game_not_number)
  next
    case (Some g)
    have "fst (guess_number_game d upd db) = db(user_id upd \<mapsto> s\<lparr>attempts := attempts s + 1\<rparr>)
        \<or> fst (guess_number_game d upd db) = db(user_id upd := None)"
      using \<open>db (user_id upd) = Some s\<close> n(1) t(2) Some by (simp add: game_number)
    with assms n show ?thesis
      by (auto simp: store_ok_def session_ok_def split: if_splits)
  qed
qed

lemma dispatch_store_ok:
  assumes "store_ok db"
  shows "store_ok (fst (dispatch e d ev upd db))"
proof (cases ev)
  case (Command name args)
  with assms game_store_ok [OF assms, of d upd] show ?thesis
    by (auto simp: dispatch_def start_def help_command_def chatgpt_command_def
        youtube_command_def whatsapp_command_def weather_command_def broadcast_command_def
        Let_def split: list.splits prod.splits option.splits)
next
  case (CallbackQuery data)
  with assms show ?thesis by (simp add: dispatch_def button_handler_def)
next
  case TextMessage
  with assms game_store_ok [OF assms, of d upd] show ?thesis
    by (simp add: dispatch_def handle_message_def Let_def)
qed

lemma run_store_ok: "store_ok db \<Longrightarrow> store_ok (run e evs db)"
  by (induction evs arbitrary: db) (auto simp: dispatch_store_ok)

lemma store_ok_empty: "store_ok Map.empty"
  by (simp add: store_ok_def)

lemma store_ok_playing:
  assumes "store_ok db"
  shows "playing db uid = (uid \<in> dom db)"
proof (cases "db uid")
  case None
  then show ?thesis by (simp add: playing_def dom_def)
next
  case (Some s)
  with assms have "session_ok s" by (simp add: store_ok_def)
  then have "truthy (number s)"
    by (auto simp: session_ok_def truthy_def split: option.splits)
  with Some show ?thesis by (simp add: playing_def dom_def)
qed

lemma guess_all_append_fst:
  "fst (guess_all uid (xs @ ys) db) = fst (guess_all uid ys (fst (guess_all uid xs db)))"
  by (induction xs arbitrary: db) (auto simp: split_def Let_def)

lemma guess_all_append_snd:
  "snd (guess_all uid (xs @ ys) db) =
     snd (guess_all uid xs db) @ snd (guess_all uid ys (fst (guess_all uid xs db)))"
  by (induction xs arbitrary: db) (auto simp: split_def Let_def)

text \<open>
  While no guess is the number, the counter grows by the number of messages that parse
  as an integer, whatever becomes of the sends.
\<close>

lemma guess_all_counts:
  assumes "db uid = Some s" "number s = Some target" "target \<noteq> 0"
    and "\<forall>(d, t, ok) \<in> set msgs. py_int t \<noteq> Some target"
  shows "fst (guess_all uid msgs db) =
           db(uid \<mapsto> s\<lparr>attempts :=
             attempts s + int (length (filter (\<lambda>(d, t, ok). py_int t \<noteq> None) msgs))\<rparr>)"
  using assms
proof (induction msgs arbitrary: db s)
  case Nil
  then have "db(uid \<mapsto> s) = db" by (simp add: fun_upd_idem)
  then show ?case by simp
next
  case (Cons m msgs)
  obtain d x ok where m: "m = (d, x, ok)" by (cases m)
  let ?upd = "\<lparr>user_id = uid, msg_text = x, reply_ok = ok\<rparr>"
  show ?case
  proof (cases "py_int x")
    case None
    with Cons.prems have step: "fst (guess_number_game d ?upd db) = db"
      by (simp add: game_not_number truthy_def)
    from Cons.prems have "fst (guess_all uid msgs db) =
        db(uid \<mapsto> s\<lparr>attempts :=
             attempts s + int (length (filter (\<lambda>(d, t, ok). py_int t \<noteq> None) msgs))\<rparr>)"
      by (intro Cons.IH) simp_all
    with step m None show ?thesis by (simp add: split_def)
  next
    case (Some g)
    with Cons.prems m have ne: "g \<noteq> target" by auto
    let ?s1 = "s\<lparr>attempts := attempts s + 1\<rparr>"
    have "fst (guess_number_game d ?upd db) = db(user_id ?upd \<mapsto> ?s1)"
      using game_miss [of db ?upd s target g d] Cons.prems(1-3) Some ne by simp
    then have step: "fst (guess_number_game d ?upd db) = db(uid \<mapsto> ?s1)" by simp
    have "fst (guess_all uid msgs (db(uid \<mapsto> ?s1))) =
        (db(uid \<mapsto> ?s1))(uid \<mapsto> ?s1\<lparr>attempts :=
             attempts ?s1 + int (length (filter (\<lambda>(d, t, ok). py_int t \<noteq> None) msgs))\<rparr>)"
      using Cons.prems by (intro Cons.IH) simp_all
    with step m Some show ?thesis by (simp add: split_def add.assoc)
  qed
qed

text \<open>A handler run for one user leaves the entries of all other users alone.\<close>

lemma game_other_user:
  "uid \<noteq> user_id upd \<Longrightarrow> fst (guess_number_game d upd db) uid = db uid"
  by (simp add: guess_number_game_def Let_def split: option.splits prod.splits)

lemma dispatch_other_user:
  "uid \<noteq> user_id upd \<Longrightarrow> fst (dispatch e d ev upd db) uid = db uid"
  by (cases ev)
     (auto simp: dispatch_def start_def help_command_def chatgpt_command_def
        youtube_command_def whatsapp_command_def weather_command_def broadcast_command_def
        button_handler_def handle_message_def game_other_user
        Let_def split: list.splits prod.splits option.splits)

section \<open>Starting a game\<close>

text \<open>
  Claim C1. For a user with no entry in the dictionary, the start-game handler adds
  exactly one entry, for that user, whose number lies between 1 and 100 and whose
  attempts counter is 0, and it sends the prompt that announces the range. The entry
  is written before the prompt is sent, so it is there whatever becomes of the send.
\<close>

theorem start_game_creates_session:
  assumes "db (user_id upd) = None"
  shows "fst (guess_number_game d upd db) =
           db(user_id upd \<mapsto> \<lparr>number = Some (randint 1 100 d), attempts = 0\<rparr>)
         \<and> snd (guess_number_game d upd db) =
             (if reply_ok upd 0 then [Reply RangePrompt] else [Unsent RangePrompt, Raised])
         \<and> 1 \<le> randint 1 100 d \<and> randint 1 100 d \<le> 100
         \<and> dom (fst (guess_number_game d upd db)) = insert (user_id upd) (dom db)"
  using assms randint_range [of d] by (simp add: game_fresh reply_uncaught_def)

theorem start_game_creates_session_witness:
  "Map.empty (user_id \<lparr>user_id = 7, msg_text = ''/game'', reply_ok = (\<lambda>k. True)\<rparr>) =
     (None :: session option)
   \<and> guess_number_game 41 \<lparr>user_id = 7, msg_text = ''/game'', reply_ok = (\<lambda>k. True)\<rparr> Map.empty =
       ([7 \<mapsto> \<lparr>number = Some 42, attempts = 0\<rparr>], [Reply RangePrompt])"
proof -
  have r: "randint 1 100 41 = 42" by (simp add: randint_def)
  have e: "(Map.empty :: games)
             (user_id \<lparr>user_id = 7, msg_text = ''/game'', reply_ok = (\<lambda>k. True)\<rparr>) = None"
    by simp
  from start_game_creates_session [OF e, of 41]
  have "fst (guess_number_game 41 \<lparr>user_id = 7, msg_text = ''/game'', reply_ok = (\<lambda>k. True)\<rparr>
               Map.empty) = [7 \<mapsto> \<lparr>number = Some 42, attempts = 0\<rparr>]"
    and "snd (guess_number_game 41 \<lparr>user_id = 7, msg_text = ''/game'', reply_ok = (\<lambda>k. True)\<rparr>
               Map.empty) = [Reply RangePrompt]"
    unfolding r by simp_all
  then show ?thesis by (simp add: prod_eq_iff)
qed

section \<open>Messages that are not numbers\<close>

text \<open>The exact trace, with the outcome of every send.\<close>

lemma guess_all_not_number:
  assumes "db uid = Some s" "truthy (number s)" "\<forall>(d, t, ok) \<in> set msgs. py_int t = None"
  shows "guess_all uid msgs db =
           (db, concat (map (\<lambda>(d, t, ok). reply_uncaught ok 0 PleaseSendNumber) msgs))"
  using assms
proof (induction msgs)
  case Nil
  then show ?case by simp
next
  case (Cons m msgs)
  obtain d x ok where m: "m = (d, x, ok)" by (cases m)
  with Cons.prems have "py_int x = None" by simp
  with Cons.prems
  have "guess_number_game d \<lparr>user_id = uid, msg_text = x, reply_ok = ok\<rparr> db =
      (db, reply_uncaught ok 0 PleaseSendNumber)"
    by (simp add: game_not_number)
  with Cons m show ?case by simp
qed

lemma all_sent_trace:
  "\<forall>(d, t, ok) \<in> set msgs. ok 0 \<Longrightarrow>
   concat (map (\<lambda>(d, t, ok). reply_uncaught ok 0 r) msgs) = replicate (length msgs) (Reply r)"
  by (induction msgs) (auto simp: reply_uncaught_def)

text \<open>
  Claim C2. While a user has an active session, any number of messages that do not
  parse as an integer leave the whole dictionary as it was (so the attempts counter
  and the number are unchanged and the session stays), and each is answered with
  "Please send a number!".
\<close>

theorem non_numeric_guesses_change_nothing:
  assumes "db uid = Some s" "truthy (number s)" "\<forall>(d, t, ok) \<in> set msgs. py_int t = None"
  shows "fst (guess_all uid msgs db) = db
       \<and> ((\<forall>(d, t, ok) \<in> set msgs. ok 0) \<longrightarrow>
            guess_all uid msgs db = (db, replicate (length msgs) (Reply PleaseSendNumber)))"
  using assms by (simp add: guess_all_not_number all_sent_trace)

theorem non_numeric_guesses_change_nothing_witness:
  "py_int ''hello'' = None \<and> py_int ''/game'' = None \<and> py_int ''4.5'' = None
   \<and> guess_all 7 [(0, ''hello'', \<lambda>k. True), (0, ''/game'', \<lambda>k. True), (0, ''4.5'', \<lambda>k. True)]
         [7 \<mapsto> \<lparr>number = Some 50, attempts = 1\<rparr>] =
       ([7 \<mapsto> \<lparr>number = Some 50, attempts = 1\<rparr>],
        [Reply PleaseSendNumber, Reply PleaseSendNumber, Reply PleaseSendNumber])"
proof -
  have p: "py_int ''hello'' = None" "py_int ''/game'' = None" "py_int ''4.5'' = None"
    by code_simp+
  let ?msgs = "[(0::nat, ''hello'', \<lambda>k::nat. True), (0, ''/game'', \<lambda>k. True),
                (0, ''4.5'', \<lambda>k. True)]"
  have "fst (guess_all 7 ?msgs [7 \<mapsto> \<lparr>number = Some 50, attempts = 1\<rparr>]) =
          [7 \<mapsto> \<lparr>number = Some 50, attempts = 1\<rparr>]
       \<and> ((\<forall>(d, t, ok) \<in> set ?msgs. ok 0) \<longrightarrow>
            guess_all 7 ?msgs [7 \<mapsto> \<lparr>number = Some 50, attempts = 1\<rparr>] =
              ([7 \<mapsto> \<lparr>number = Some 50, attempts = 1\<rparr>],
               replicate (length ?msgs) (Reply PleaseSendNumber)))"
    by (rule non_numeric_guesses_change_nothing [where s = "\<lparr>number = Some 50, attempts = 1\<rparr>"])
       (simp_all add: truthy_def p)
  with p show ?thesis by (simp add: numeral_3_eq_3)
qed

section \<open>The winning guess\<close>

text \<open>
  When the success message is sent, the winning guess removes the entry and reports
  the counter. When its send raises, the entry stays.
\<close>

lemma winning_guess_sent:
  assumes "db (user_id upd) = Some s" "number s = Some target" "target \<noteq> 0"
    and "py_int (msg_text upd) = Some target" "reply_ok upd 0"
  shows "guess_number_game d upd db =
           (db(user_id upd := None), [Reply (Correct (attempts s + 1))])"
  using assms by (simp add: game_number)

lemma winning_guess_unsent:
  assumes "db (user_id upd) = Some s" "number s = Some target" "target \<noteq> 0"
    and "py_int (msg_text upd) = Some target" "\<not> reply_ok upd 0"
  shows "guess_number_game d upd db =
           (db(user_id upd \<mapsto> s\<lparr>attempts := attempts s + 1\<rparr>),
            Unsent (Correct (attempts s + 1))
              # reply_uncaught (reply_ok upd) 1 PleaseSendNumber)"
  using assms by (simp add: game_number)

text \<open>
  A session that starts with the start-game action and goes on with messages none of
  which is the number: if the success message of the first guess that equals the number
  is sent, the user's entry is removed, and the message reports as many attempts as
  messages of the session parsed as an integer, the winning one included.
\<close>

lemma session_ends_when_success_is_sent:
  assumes "db uid = None"
    and "\<forall>(d, t, ok) \<in> set msgs. py_int t \<noteq> Some (randint 1 100 d0)"
    and "py_int w = Some (randint 1 100 d0)"
    and "okw 0"
  shows "fst (guess_all uid ((d0, t0, ok0) # msgs @ [(dw, w, okw)]) db) uid = None
         \<and> last (snd (guess_all uid ((d0, t0, ok0) # msgs @ [(dw, w, okw)]) db)) =
             Reply (Correct (int (length (filter (\<lambda>(d, t, ok). py_int t \<noteq> None)
                                            (msgs @ [(dw, w, okw)])))))"
proof -
  let ?T = "randint 1 100 d0"
  let ?s0 = "\<lparr>number = Some ?T, attempts = 0\<rparr>"
  let ?db1 = "db(uid \<mapsto> ?s0)"
  let ?n = "int (length (filter (\<lambda>(d, t, ok). py_int t \<noteq> None) msgs))"
  let ?s2 = "?s0\<lparr>attempts := attempts ?s0 + ?n\<rparr>"
  let ?db2 = "?db1(uid \<mapsto> ?s2)"
  let ?upd = "\<lparr>user_id = uid, msg_text = w, reply_ok = okw\<rparr>"
  let ?all = "(d0, t0, ok0) # msgs @ [(dw, w, okw)]"
  have T: "?T \<noteq> 0" using randint_range [of d0] by simp
  have first: "guess_number_game d0 \<lparr>user_id = uid, msg_text = t0, reply_ok = ok0\<rparr> db =
      (?db1, reply_uncaught ok0 0 RangePrompt)"
    using assms(1) by (simp add: game_fresh)
  have mid: "fst (guess_all uid msgs ?db1) = ?db2"
    using guess_all_counts [of ?db1 uid ?s0 ?T msgs] T assms(2) by simp
  have win: "guess_number_game dw ?upd ?db2 = (?db2(uid := None), [Reply (Correct (?n + 1))])"
    using winning_guess_sent [of ?db2 ?upd ?s2 ?T dw] T assms(3,4) by simp
  have whole_fst: "fst (guess_all uid ?all db) =
      fst (guess_all uid [(dw, w, okw)] (fst (guess_all uid msgs ?db1)))"
    using first by (simp add: split_def guess_all_append_fst)
  have whole_snd: "snd (guess_all uid ?all db) =
      reply_uncaught ok0 0 RangePrompt @ snd (guess_all uid msgs ?db1)
        @ snd (guess_all uid [(dw, w, okw)] (fst (guess_all uid msgs ?db1)))"
    using first by (simp add: split_def guess_all_append_snd)
  from whole_fst mid win have a: "fst (guess_all uid ?all db) uid = None"
    by (simp add: split_def)
  from whole_snd mid win assms(3)
  have b: "last (snd (guess_all uid ?all db)) =
             Reply (Correct (int (length (filter (\<lambda>(d, t, ok). py_int t \<noteq> None)
                                            (msgs @ [(dw, w, okw)])))))"
    by (simp add: split_def)
  from a b show ?thesis by simp
qed

text \<open>
  Claim C3. A guess equal to the number removes the user's entry from the dictionary,
  and the success message reports the number of guesses that parsed as an integer. The
  handler deletes the entry (line 153) only after it has sent the success message
  (line 152), both inside the \<^verbatim>\<open>try\<close>. When that send raises, the bare \<^verbatim>\<open>except\<close>
  of line 154 catches the exception, line 155 answers "Please send a number!", and the
  handler returns with the entry still in the dictionary and its counter incremented.
  The start of a game (lines 136 to 138) and the counting of an attempt (line 143)
  write the dictionary before they send; the deletion alone comes after.

  Below, user 7 starts a game, the number is 50, and the guess "50" follows. With the
  send of the success message raising the entry stays; with it returning the entry is
  removed.
\<close>

theorem winning_guess_keeps_session_when_reply_raises:
  "guess_all 7 [(49, ''/game'', \<lambda>k. True), (0, ''50'', first_send_raises)] Map.empty =
     ([7 \<mapsto> \<lparr>number = Some 50, attempts = 1\<rparr>],
      [Reply RangePrompt, Unsent (Correct 1), Reply PleaseSendNumber])
   \<and> fst (guess_all 7 [(49, ''/game'', \<lambda>k. True), (0, ''50'', first_send_raises)] Map.empty) 7 =
       Some \<lparr>number = Some 50, attempts = 1\<rparr>
   \<and> fst (guess_all 7 [(49, ''/game'', \<lambda>k. True), (0, ''50'', \<lambda>k. True)] Map.empty) 7 = None"
proof -
  have p: "py_int ''50'' = Some 50" by code_simp
  have r: "randint 1 100 49 = 50" by (simp add: randint_def)
  have a: "guess_number_game 49 \<lparr>user_id = 7, msg_text = ''/game'', reply_ok = (\<lambda>k. True)\<rparr>
             Map.empty = ([7 \<mapsto> \<lparr>number = Some 50, attempts = 0\<rparr>], [Reply RangePrompt])"
    by (simp add: game_fresh r reply_uncaught_def)
  have b: "guess_number_game 0 \<lparr>user_id = 7, msg_text = ''50'', reply_ok = first_send_raises\<rparr>
             [7 \<mapsto> \<lparr>number = Some 50, attempts = 0\<rparr>] =
           ([7 \<mapsto> \<lparr>number = Some 50, attempts = 1\<rparr>],
            [Unsent (Correct 1), Reply PleaseSendNumber])"
    using winning_guess_unsent [of "[7 \<mapsto> \<lparr>number = Some 50, attempts = 0\<rparr>]"
        "\<lparr>user_id = 7, msg_text = ''50'', reply_ok = first_send_raises\<rparr>"
        "\<lparr>number = Some 50, attempts = 0\<rparr>" 50 0]
    by (simp add: p reply_uncaught_def first_send_raises_def)
  have c: "guess_number_game 0 \<lparr>user_id = 7, msg_text = ''50'', reply_ok = (\<lambda>k. True)\<rparr>
             [7 \<mapsto> \<lparr>number = Some 50, attempts = 0\<rparr>] =
           (Map.empty, [Reply (Correct 1)])"
    using winning_guess_sent [of "[7 \<mapsto> \<lparr>number = Some 50, attempts = 0\<rparr>]"
        "\<lparr>user_id = 7, msg_text = ''50'', reply_ok = (\<lambda>k. True)\<rparr>"
        "\<lparr>number = Some 50, attempts = 0\<rparr>" 50 0]
    by (simp add: p)
  show ?thesis by (simp add: a b c)
qed

section \<open>The ordering rule\<close>

text \<open>
  Claim C4. For an active session and a message that parses as an integer, the attempts
  counter goes up by one and the guess is compared with the number: below it the answer
  is "too low" and the session stays, above it the answer is "too high" and the session
  stays, equal to it the answer is the success message. With the number 50, the guess
  30 is too low, 70 is too high and 50 wins.
\<close>

theorem guess_follows_ordering:
  assumes "db (user_id upd) = Some s" "number s = Some target" "target \<noteq> 0"
    and "py_int (msg_text upd) = Some guess"
  shows "(guess < target \<longrightarrow>
            guess_number_game d upd db =
              (db(user_id upd \<mapsto> s\<lparr>attempts := attempts s + 1\<rparr>),
               reply_caught (reply_ok upd) TooLow))
       \<and> (guess > target \<longrightarrow>
            guess_number_game d upd db =
              (db(user_id upd \<mapsto> s\<lparr>attempts := attempts s + 1\<rparr>),
               reply_caught (reply_ok upd) TooHigh))
       \<and> (guess = target \<longrightarrow>
            guess_number_game d upd db =
              (if reply_ok upd 0
               then (db(user_id upd := None), [Reply (Correct (attempts s + 1))])
               else (db(user_id upd \<mapsto> s\<lparr>attempts := attempts s + 1\<rparr>),
                     Unsent (Correct (attempts s + 1))
                       # reply_uncaught (reply_ok upd) 1 PleaseSendNumber)))
       \<and> (reply_ok upd 0 \<longrightarrow>
            reply_caught (reply_ok upd) TooLow = [Reply TooLow]
            \<and> reply_caught (reply_ok upd) TooHigh = [Reply TooHigh])"
  using assms by (simp add: game_number reply_caught_def)

theorem guess_follows_ordering_witness:
  "guess_number_game 0 \<lparr>user_id = 7, msg_text = ''30'', reply_ok = (\<lambda>k. True)\<rparr>
      [7 \<mapsto> \<lparr>number = Some 50, attempts = 0\<rparr>] =
     ([7 \<mapsto> \<lparr>number = Some 50, attempts = 1\<rparr>], [Reply TooLow])
   \<and> guess_number_game 0 \<lparr>user_id = 7, msg_text = ''70'', reply_ok = (\<lambda>k. True)\<rparr>
      [7 \<mapsto> \<lparr>number = Some 50, attempts = 1\<rparr>] =
     ([7 \<mapsto> \<lparr>number = Some 50, attempts = 2\<rparr>], [Reply TooHigh])
   \<and> guess_number_game 0 \<lparr>user_id = 7, msg_text = ''50'', reply_ok = (\<lambda>k. True)\<rparr>
      [7 \<mapsto> \<lparr>number = Some 50, attempts = 2\<rparr>] =
     (Map.empty, [Reply (Correct 3)])"
proof -
  have p: "py_int ''30'' = Some 30" "py_int ''70'' = Some 70" "py_int ''50'' = Some 50"
    by code_simp+
  show ?thesis
    using
      guess_follows_ordering [of "[7 \<mapsto> \<lparr>number = Some 50, attempts = 0\<rparr>]"
        "\<lparr>user_id = 7, msg_text = ''30'', reply_ok = (\<lambda>k. True)\<rparr>"
        "\<lparr>number = Some 50, attempts = 0\<rparr>" 50 30 0]
      guess_follows_ordering [of "[7 \<mapsto> \<lparr>number = Some 50, attempts = 1\<rparr>]"
        "\<lparr>user_id = 7, msg_text = ''70'', reply_ok = (\<lambda>k. True)\<rparr>"
        "\<lparr>number = Some 50, attempts = 1\<rparr>" 50 70 0]
      guess_follows_ordering [of "[7 \<mapsto> \<lparr>number = Some 50, attempts = 2\<rparr>]"
        "\<lparr>user_id = 7, msg_text = ''50'', reply_ok = (\<lambda>k. True)\<rparr>"
        "\<lparr>number = Some 50, attempts = 2\<rparr>" 50 50 0]
    by (simp add: p)
qed

section \<open>A guess outside the announced range\<close>

text \<open>
  Claim C5, as the specification words it: after user A started a game with number T,
  the guess "200" is answered "too low" when T is below 200. The handler compares the
  guess with the number, not the number with the guess: with T = 50 the guess 200 is
  above the number and the answer is "too high".
\<close>

theorem out_of_range_guess_is_too_low_counterexample:
  "fst (guess_number_game 49 \<lparr>user_id = 7, msg_text = ''/game'', reply_ok = (\<lambda>k. True)\<rparr>
          Map.empty) 7 =
      Some \<lparr>number = Some 50, attempts = 0\<rparr>
   \<and> (50 :: int) < 200
   \<and> snd (guess_number_game 0 \<lparr>user_id = 7, msg_text = ''200'', reply_ok = (\<lambda>k. True)\<rparr>
            (fst (guess_number_game 49
                    \<lparr>user_id = 7, msg_text = ''/game'', reply_ok = (\<lambda>k. True)\<rparr> Map.empty)))
       = [Reply TooHigh]
   \<and> snd (guess_number_game 0 \<lparr>user_id = 7, msg_text = ''200'', reply_ok = (\<lambda>k. True)\<rparr>
            (fst (guess_number_game 49
                    \<lparr>user_id = 7, msg_text = ''/game'', reply_ok = (\<lambda>k. True)\<rparr> Map.empty)))
       \<noteq> [Reply TooLow]"
proof -
  have p: "py_int ''200'' = Some 200" by code_simp
  have a: "guess_number_game 49 \<lparr>user_id = 7, msg_text = ''/game'', reply_ok = (\<lambda>k. True)\<rparr>
             Map.empty = ([7 \<mapsto> \<lparr>number = Some 50, attempts = 0\<rparr>], [Reply RangePrompt])"
    by (simp add: game_fresh randint_def reply_uncaught_def)
  have b: "guess_number_game 0 \<lparr>user_id = 7, msg_text = ''200'', reply_ok = (\<lambda>k. True)\<rparr>
        [7 \<mapsto> \<lparr>number = Some 50, attempts = 0\<rparr>] =
      ([7 \<mapsto> \<lparr>number = Some 50, attempts = 1\<rparr>], [Reply TooHigh])"
    using game_number [of "[7 \<mapsto> \<lparr>number = Some 50, attempts = 0\<rparr>]"
        "\<lparr>user_id = 7, msg_text = ''200'', reply_ok = (\<lambda>k. True)\<rparr>"
        "\<lparr>number = Some 50, attempts = 0\<rparr>" 50 200 0]
    by (simp add: p reply_caught_def)
  show ?thesis by (simp add: a b)
qed

text \<open>
  Claim C5, amended: after a user with no entry started a game, the entry holds a
  number T below 200 and the counter 0; the guess "200" is still put through the
  ordering rule, is answered "too high", and the counter becomes 1.
\<close>

theorem out_of_range_guess_is_too_high:
  assumes "db uid = None"
  shows "fst (guess_number_game d0 \<lparr>user_id = uid, msg_text = t0, reply_ok = ok0\<rparr> db) =
           db(uid \<mapsto> \<lparr>number = Some (randint 1 100 d0), attempts = 0\<rparr>)
       \<and> randint 1 100 d0 < 200
       \<and> guess_number_game d \<lparr>user_id = uid, msg_text = ''200'', reply_ok = ok\<rparr>
            (fst (guess_number_game d0 \<lparr>user_id = uid, msg_text = t0, reply_ok = ok0\<rparr> db)) =
           (db(uid \<mapsto> \<lparr>number = Some (randint 1 100 d0), attempts = 1\<rparr>),
            reply_caught ok TooHigh)
       \<and> (ok 0 \<longrightarrow> reply_caught ok TooHigh = [Reply TooHigh])"
proof -
  let ?T = "randint 1 100 d0"
  let ?s0 = "\<lparr>number = Some ?T, attempts = 0\<rparr>"
  let ?upd = "\<lparr>user_id = uid, msg_text = ''200'', reply_ok = ok\<rparr>"
  have p: "py_int ''200'' = Some 200" by code_simp
  have T: "1 \<le> ?T" "?T \<le> 100" using randint_range [of d0] by simp_all
  have a: "fst (guess_number_game d0 \<lparr>user_id = uid, msg_text = t0, reply_ok = ok0\<rparr> db) =
      db(uid \<mapsto> ?s0)"
    using assms by (simp add: game_fresh)
  have b: "guess_number_game d ?upd (db(uid \<mapsto> ?s0)) =
      (db(uid \<mapsto> \<lparr>number = Some ?T, attempts = 1\<rparr>), reply_caught ok TooHigh)"
    using game_number [of "db(uid \<mapsto> ?s0)" ?upd ?s0 ?T 200 d] T p by simp
  from a b T show ?thesis by (simp add: reply_caught_def)
qed

theorem out_of_range_guess_is_too_high_witness:
  "fst (guess_number_game 49 \<lparr>user_id = 7, msg_text = ''/game'', reply_ok = (\<lambda>k. True)\<rparr>
          Map.empty) =
     [7 \<mapsto> \<lparr>number = Some 50, attempts = 0\<rparr>]
   \<and> guess_number_game 0 \<lparr>user_id = 7, msg_text = ''200'', reply_ok = (\<lambda>k. True)\<rparr>
      (fst (guess_number_game 49 \<lparr>user_id = 7, msg_text = ''/game'', reply_ok = (\<lambda>k. True)\<rparr>
              Map.empty)) =
     ([7 \<mapsto> \<lparr>number = Some 50, attempts = 1\<rparr>], [Reply TooHigh])"
proof -
  have r: "randint 1 100 49 = 50" by (simp add: randint_def)
  have e: "(Map.empty :: games) 7 = None" by simp
  have c: "reply_caught (\<lambda>k. True) TooHigh = [Reply TooHigh]" by (simp add: reply_caught_def)
  show ?thesis
    using out_of_range_guess_is_too_high
      [OF e, where ?d0.0 = 49 and ?t0.0 = "''/game''" and d = 0
         and ?ok0.0 = "\<lambda>k. True" and ok = "\<lambda>k. True"]
    unfolding r c by blast
qed

section \<open>Routing of free text\<close>

text \<open>
  Claim C6. A text message of a user with an active game session is handed to the game
  handler as a guess: the message handler does exactly what the game handler does, and
  its trace holds no call to an AI chat function.
\<close>

theorem active_text_goes_to_game:
  assumes "db (user_id upd) = Some s" "truthy (number s)"
  shows "handle_message e d upd db = guess_number_game d upd db
       \<and> dispatch e d TextMessage upd db = guess_number_game d upd db
       \<and> filter is_ai_call (snd (handle_message e d upd db)) = []"
  using assms by (simp add: handle_message_def dispatch_def playing_def game_no_ai_call)

theorem active_text_goes_to_game_witness:
  "handle_message example_env 0
      \<lparr>user_id = 7, msg_text = ''what is the weather'', reply_ok = (\<lambda>k. True)\<rparr>
      [7 \<mapsto> \<lparr>number = Some 50, attempts = 0\<rparr>] =
     ([7 \<mapsto> \<lparr>number = Some 50, attempts = 0\<rparr>], [Reply PleaseSendNumber])
   \<and> filter is_ai_call
        (snd (handle_message example_env 0
               \<lparr>user_id = 7, msg_text = ''what is the weather'', reply_ok = (\<lambda>k. True)\<rparr>
               [7 \<mapsto> \<lparr>number = Some 50, attempts = 0\<rparr>])) = []"
proof -
  have p: "py_int ''what is the weather'' = None" by code_simp
  have g: "guess_number_game 0
      \<lparr>user_id = 7, msg_text = ''what is the weather'', reply_ok = (\<lambda>k. True)\<rparr>
      [7 \<mapsto> \<lparr>number = Some 50, attempts = 0\<rparr>] =
     ([7 \<mapsto> \<lparr>number = Some 50, attempts = 0\<rparr>], [Reply PleaseSendNumber])"
    using game_not_number [of "[7 \<mapsto> \<lparr>number = Some 50, attempts = 0\<rparr>]"
        "\<lparr>user_id = 7, msg_text = ''what is the weather'', reply_ok = (\<lambda>k. True)\<rparr>"
        "\<lparr>number = Some 50, attempts = 0\<rparr>" 0]
    by (simp add: truthy_def p reply_uncaught_def)
  show ?thesis
    using active_text_goes_to_game [of "[7 \<mapsto> \<lparr>number = Some 50, attempts = 0\<rparr>]"
        "\<lparr>user_id = 7, msg_text = ''what is the weather'', reply_ok = (\<lambda>k. True)\<rparr>"
        "\<lparr>number = Some 50, attempts = 0\<rparr>" example_env 0]
    by (simp add: truthy_def g)
qed



section \<open>The privileged command\<close>

text \<open>
  Claim C8. When a user who is not in the list of administrators invokes /broadcast,
  the only thing the handler does is reply "Admin only command!": nothing is broadcast
  and the dictionary is left as it was.
\<close>

theorem broadcast_needs_admin:
  assumes "user_id upd \<notin> set (ADMIN_IDS e)"
  shows "broadcast_command e upd args db = (db, [Reply AdminOnly])
       \<and> dispatch e d (Command ''broadcast'' args) upd db = (db, [Reply AdminOnly])"
  using assms by (simp add: broadcast_command_def dispatch_def)

theorem broadcast_needs_admin_witness:
  "7 \<notin> set (ADMIN_IDS example_env)
   \<and> broadcast_command example_env
        \<lparr>user_id = 7, msg_text = ''/broadcast hi all'', reply_ok = (\<lambda>k. True)\<rparr>
        [''hi'', ''all''] Map.empty = (Map.empty, [Reply AdminOnly])
   \<and> broadcast_command example_env
        \<lparr>user_id = 1000, msg_text = ''/broadcast hi all'', reply_ok = (\<lambda>k. True)\<rparr>
        [''hi'', ''all''] Map.empty = (Map.empty, [Reply (BroadcastSent ''hi all'')])"
proof -
  have a: "user_id \<lparr>user_id = 7, msg_text = ''/broadcast hi all'', reply_ok = (\<lambda>k. True)\<rparr>
             \<notin> set (ADMIN_IDS example_env)"
    by (simp add: example_env_def)
  have b: "broadcast_command example_env
        \<lparr>user_id = 1000, msg_text = ''/broadcast hi all'', reply_ok = (\<lambda>k. True)\<rparr>
        [''hi'', ''all''] Map.empty = (Map.empty, [Reply (BroadcastSent ''hi all'')])"
    by (simp add: broadcast_command_def example_env_def)
  from broadcast_needs_admin [OF a, of "[''hi'', ''all'']" Map.empty 0] a b
  show ?thesis by simp
qed

section \<open>Starting a game twice\<close>

text \<open>
  Claim C9. The start-game command of a user who already has an active session changes
  nothing in the dictionary: the number is not drawn again and the attempts counter is
  not reset. The text of a command starts with "/", so it does not parse as an integer.
\<close>

theorem start_while_playing_keeps_session:
  assumes "db uid = Some s" "truthy (number s)"
  shows "guess_number_game d \<lparr>user_id = uid, msg_text = CHR ''/'' # rest, reply_ok = ok\<rparr> db =
           (db, if ok 0 then [Reply PleaseSendNumber] else [Unsent PleaseSendNumber, Raised])
       \<and> dispatch e d (Command ''game'' args)
            \<lparr>user_id = uid, msg_text = CHR ''/'' # rest, reply_ok = ok\<rparr> db =
           (db, if ok 0 then [Reply PleaseSendNumber] else [Unsent PleaseSendNumber, Raised])"
proof -
  have "guess_number_game d \<lparr>user_id = uid, msg_text = CHR ''/'' # rest, reply_ok = ok\<rparr> db =
           (db, reply_uncaught ok 0 PleaseSendNumber)"
    using game_not_number [of db "\<lparr>user_id = uid, msg_text = CHR ''/'' # rest, reply_ok = ok\<rparr>" s d]
      assms by (simp add: py_int_slash)
  then show ?thesis by (simp add: dispatch_def reply_uncaught_def)
qed

theorem start_while_playing_keeps_session_witness:
  "guess_number_game 12 \<lparr>user_id = 7, msg_text = ''/game'', reply_ok = (\<lambda>k. True)\<rparr>
      [7 \<mapsto> \<lparr>number = Some 50, attempts = 3\<rparr>] =
     ([7 \<mapsto> \<lparr>number = Some 50, attempts = 3\<rparr>], [Reply PleaseSendNumber])"
  using start_while_playing_keeps_session
    [where db = "[7 \<mapsto> \<lparr>number = Some 50, attempts = 3\<rparr>]" and uid = 7
       and s = "\<lparr>number = Some 50, attempts = 3\<rparr>" and d = 12 and rest = "''game''"
       and ok = "\<lambda>k. True" and e = example_env and args = "[]"]
  by (simp add: truthy_def)

section \<open>The invariant of the dictionary\<close>

text \<open>
  Claim C10. The dictionary starts empty (line 125). After any sequence of handled
  updates, whatever became of their sends, every entry has a number between 1 and 100,
  never None or 0, and an attempts counter that is not negative. So the guard of line
  300, which tests the truth value of the number, holds exactly for the users that have
  an entry.
\<close>

theorem store_invariant:
  "store_ok (run e evs Map.empty)
   \<and> (\<forall>uid. playing (run e evs Map.empty) uid = (uid \<in> dom (run e evs Map.empty)))"
proof -
  have ok: "store_ok (run e evs Map.empty)"
    using store_ok_empty by (rule run_store_ok)
  then show ?thesis by (simp add: store_ok_playing)
qed

theorem store_invariant_witness:
  "run example_env
     [(49, Command ''game'' [], \<lparr>user_id = 7, msg_text = ''/game'', reply_ok = (\<lambda>k. True)\<rparr>),
      (0, TextMessage, \<lparr>user_id = 7, msg_text = ''200'', reply_ok = (\<lambda>k. True)\<rparr>),
      (0, TextMessage, \<lparr>user_id = 7, msg_text = ''50'', reply_ok = first_send_raises\<rparr>),
      (0, CallbackQuery ''help'', \<lparr>user_id = 8, msg_text = '''', reply_ok = (\<lambda>k. True)\<rparr>),
      (0, TextMessage, \<lparr>user_id = 8, msg_text = ''hi'', reply_ok = (\<lambda>k. True)\<rparr>)] Map.empty 7 =
     Some \<lparr>number = Some 50, attempts = 2\<rparr>
   \<and> session_ok \<lparr>number = Some 50, attempts = 2\<rparr>
   \<and> playing (run example_env
     [(49, Command ''game'' [], \<lparr>user_id = 7, msg_text = ''/game'', reply_ok = (\<lambda>k. True)\<rparr>),
      (0, TextMessage, \<lparr>user_id = 7, msg_text = ''200'', reply_ok = (\<lambda>k. True)\<rparr>),
      (0, TextMessage, \<lparr>user_id = 7, msg_text = ''50'', reply_ok = first_send_raises\<rparr>),
      (0, CallbackQuery ''help'', \<lparr>user_id = 8, msg_text = '''', reply_ok = (\<lambda>k. True)\<rparr>),
      (0, TextMessage, \<lparr>user_id = 8, msg_text = ''hi'', reply_ok = (\<lambda>k. True)\<rparr>)] Map.empty) 7"
proof -
  let ?evs = "[(49, Command ''game'' [], \<lparr>user_id = 7, msg_text = ''/game'', reply_ok = (\<lambda>k. True)\<rparr>),
      (0, TextMessage, \<lparr>user_id = 7, msg_text = ''200'', reply_ok = (\<lambda>k. True)\<rparr>),
      (0, TextMessage, \<lparr>user_id = 7, msg_text = ''50'', reply_ok = first_send_raises\<rparr>),
      (0, CallbackQuery ''help'', \<lparr>user_id = 8, msg_text = '''', reply_ok = (\<lambda>k. True)\<rparr>),
      (0, TextMessage, \<lparr>user_id = 8, msg_text = ''hi'', reply_ok = (\<lambda>k. True)\<rparr>)]"
  have r: "run example_env ?evs Map.empty 7 = Some \<lparr>number = Some 50, attempts = 2\<rparr>"
    by code_simp
  from store_invariant [of example_env ?evs]
  have ok: "store_ok (run example_env ?evs Map.empty)"
    and pl: "playing (run example_env ?evs Map.empty) 7 = (7 \<in> dom (run example_env ?evs Map.empty))"
    by blast+
  from ok r have "session_ok \<lparr>number = Some 50, attempts = 2\<rparr>"
    unfolding store_ok_def by blast
  moreover from pl r have "playing (run example_env ?evs Map.empty) 7"
    by (simp add: dom_def)
  ultimately show ?thesis using r by simp
qed

end
